theory Spec2Isabelle
  imports Complex_Main
begin

section \<open>Common data: severities, exceptions, metadata\<close>

text \<open>
  The checkers of \<^verbatim>\<open>dvd_data_checker/analysis\<close> label every result with one of six
  string constants. They are modelled as an enumeration; \<open>Error\<close> and \<open>Info\<close> are the two
  out-of-band labels.
\<close>

datatype severity = Critical | High | Medium | Low | Error | Info

text \<open>A Python exception, reduced to the message that \<^verbatim>\<open>str(e)\<close> yields.\<close>

datatype exn = Exn string

text \<open>
  A row of \<^verbatim>\<open>information_schema.columns\<close> as the schema reader returns it; the field
  \<open>is_nullable\<close> holds the strings \<^verbatim>\<open>YES\<close> or \<^verbatim>\<open>NO\<close>.
\<close>

record column =
  column_name :: string
  data_type :: string
  is_nullable :: string

text \<open>The dictionary built by \<^verbatim>\<open>SchemaReader.get_table_structure\<close> (the keys the checkers read).\<close>

record table_structure =
  row_count :: int
  columns :: "column list"
  primary_keys :: "string list"

text \<open>A result row of a \<^verbatim>\<open>GROUP BY ... HAVING COUNT(*) > 1\<close> query: the grouping values and the count.\<close>

record dup_row =
  group_values :: "int option list"
  dup_count :: int

text \<open>
  A value that a gap query hands to Python in its \<^verbatim>\<open>gap_days\<close> or \<^verbatim>\<open>gap_hours\<close> column:
  a number, or an SQL interval (a \<^verbatim>\<open>timedelta\<close>, measured here in days).
\<close>

datatype pynum = PyNumber real | PyTimedelta real

text \<open>
  The four query texts of \<^verbatim>\<open>_find_gaps_for_interval\<close>. Points in time are whole seconds
  since the epoch.
\<close>

datatype granularity = Daily | Hourly | Weekly | Monthly

text \<open>
  A result row of a gap query: the columns \<^verbatim>\<open>expected_date\<close>, \<^verbatim>\<open>next_expected_date\<close> and
  \<^verbatim>\<open>gap_days\<close> of the daily query, and the columns that the other three queries name after
  their unit in the same way.
\<close>

record gap_row =
  expected_start :: int
  next_expected :: int
  gap_amount :: pynum

text \<open>
  The two external collaborators, the schema reader and the query executor. Each query that
  the checkers build as SQL text is one field, taking the identifiers spliced into the text;
  every call may raise, which is the \<open>Inl\<close> branch.
\<close>

record db =
  get_table_structure :: "string \<Rightarrow> string \<Rightarrow> exn + table_structure"
  get_tables_by_schema :: "string \<Rightarrow> exn + string list"
  get_date_columns :: "string \<Rightarrow> string \<Rightarrow> exn + column list"
  get_table_row_count :: "string \<Rightarrow> string \<Rightarrow> exn + int"
  null_count_query :: "string \<Rightarrow> string \<Rightarrow> string \<Rightarrow> exn + int"
  group_having_query :: "string \<Rightarrow> string \<Rightarrow> string list \<Rightarrow> bool \<Rightarrow> exn + dup_row list"
  date_range_query :: "string \<Rightarrow> string \<Rightarrow> string \<Rightarrow> exn + (int option \<times> int option \<times> int)"
  gap_query :: "granularity \<Rightarrow> string \<Rightarrow> string \<Rightarrow> string \<Rightarrow> exn + gap_row list"

text \<open>
  Python's \<^verbatim>\<open>round(x, 2)\<close>, on exact numbers: round half to even at the second decimal.
  Percentages are modelled as exact reals; the rounding error of binary floating point is not
  part of the model.
\<close>

definition round_half_even :: "real \<Rightarrow> int" where
  "round_half_even x =
     (let f = \<lfloor>x\<rfloor>; d = x - of_int f
      in if d < 1 / 2 then f else if 1 / 2 < d then f + 1 else if even f then f else f + 1)"

definition py_round2 :: "real \<Rightarrow> real" where
  "py_round2 x = of_int (round_half_even (x * 100)) / 100"





text \<open>
  The chain \<^verbatim>\<open>if 'critical' in severities ... elif 'high' in severities ... elif 'medium' in
  severities ... else 'low'\<close> of \<^verbatim>\<open>check_table_missing_values\<close>.
\<close>

definition max_severity :: "severity list \<Rightarrow> severity" where
  "max_severity ss =
     (if Critical \<in> set ss then Critical
      else if High \<in> set ss then High
      else if Medium \<in> set ss then Medium
      else Low)"

section \<open>Missing-value checker\<close>

text \<open>\<^verbatim>\<open>MissingValueChecker._calculate_severity\<close>.\<close>

definition missing_calculate_severity :: "real \<Rightarrow> severity" where
  "missing_calculate_severity missing_percentage =
     (if missing_percentage \<ge> 50 then Critical
      else if missing_percentage \<ge> 20 then High
      else if missing_percentage \<ge> 5 then Medium
      else Low)"

record column_detail =
  cd_column_name :: string
  cd_data_type :: string
  cd_null_count :: int
  cd_missing_percentage :: real
  cd_is_nullable :: bool
  cd_severity :: severity

record missing_analysis =
  ma_table_name :: string
  ma_schema :: string
  ma_total_rows :: int
  columns_analyzed :: nat
  columns_with_missing :: nat
  missing_details :: "column_detail list"
  ma_severity :: severity

text \<open>
  The dictionary returned by \<^verbatim>\<open>check_table_missing_values\<close>: the analysis, or the
  dictionary of the \<^verbatim>\<open>except\<close> branch (table name, schema, message) with severity \<open>Error\<close>.
\<close>

datatype missing_result =
    MissingAnalysis missing_analysis
  | MissingError string string string

fun missing_get_severity :: "missing_result \<Rightarrow> severity" where
  "missing_get_severity (MissingAnalysis a) = ma_severity a"
| "missing_get_severity (MissingError t s e) = Error"

text \<open>The value the code assigns to the local variable \<^verbatim>\<open>missing_percentage\<close>.\<close>

definition missing_percentage :: "int \<Rightarrow> int \<Rightarrow> real" where
  "missing_percentage null_count total_rows =
     (if total_rows > 0 then (of_int null_count / of_int total_rows) * 100 else 0)"

definition make_column_detail :: "column \<Rightarrow> int \<Rightarrow> int \<Rightarrow> column_detail" where
  "make_column_detail c null_count total_rows =
     \<lparr> cd_column_name = column_name c,
       cd_data_type = data_type c,
       cd_null_count = null_count,
       cd_missing_percentage = py_round2 (missing_percentage null_count total_rows),
       cd_is_nullable = (is_nullable c = ''YES''),
       cd_severity = missing_calculate_severity (missing_percentage null_count total_rows) \<rparr>"

text \<open>
  The \<^verbatim>\<open>for column in columns\<close> loop of \<^verbatim>\<open>check_table_missing_values\<close>. The state is the
  pair of \<^verbatim>\<open>columns_with_missing\<close> and \<^verbatim>\<open>missing_details\<close>; a query that raises leaves the
  loop with the exception.
\<close>

fun missing_loop ::
  "db \<Rightarrow> string \<Rightarrow> string \<Rightarrow> int \<Rightarrow> column list \<Rightarrow> nat \<times> column_detail list
     \<Rightarrow> exn + (nat \<times> column_detail list)" where
  "missing_loop d table_name schema total_rows [] acc = Inr acc"
| "missing_loop d table_name schema total_rows (c # cs) (n, ds) =
     (if is_nullable c = ''YES'' then missing_loop d table_name schema total_rows cs (n, ds)
      else case null_count_query d schema table_name (column_name c) of
             Inl e \<Rightarrow> Inl e
           | Inr null_count \<Rightarrow>
               if null_count > 0
               then missing_loop d table_name schema total_rows cs
                      (n + 1, ds @ [make_column_detail c null_count total_rows])
               else missing_loop d table_name schema total_rows cs (n, ds))"

definition check_table_missing_values :: "db \<Rightarrow> string \<Rightarrow> string \<Rightarrow> missing_result" where
  "check_table_missing_values d table_name schema =
     (case get_table_structure d table_name schema of
        Inl (Exn msg) \<Rightarrow> MissingError table_name schema msg
      | Inr ts \<Rightarrow>
          (case missing_loop d table_name schema (row_count ts) (columns ts) (0, []) of
             Inl (Exn msg) \<Rightarrow> MissingError table_name schema msg
           | Inr (n, ds) \<Rightarrow>
               MissingAnalysis
                 \<lparr> ma_table_name = table_name,
                   ma_schema = schema,
                   ma_total_rows = row_count ts,
                   columns_analyzed = length (columns ts),
                   columns_with_missing = n,
                   missing_details = ds,
                   ma_severity =
                     (if ds \<noteq> [] then max_severity (map cd_severity ds) else Low) \<rparr>))"

text \<open>
  The schema-level dictionary shared in shape by the three checkers; \<open>tables_with_issues\<close> is
  the key \<^verbatim>\<open>tables_with_missing\<close>, \<^verbatim>\<open>tables_with_duplicates\<close> or \<^verbatim>\<open>tables_with_gaps\<close>. It has
  no severity key.
\<close>

record 'r schema_analysis =
  sa_schema :: string
  total_tables :: nat
  tables_analyzed :: nat
  tables_with_issues :: nat
  critical_issues :: nat
  high_issues :: nat
  medium_issues :: nat
  low_issues :: nat
  table_results :: "'r list"

datatype 'r schema_result =
    SchemaAnalysis "'r schema_analysis"
  | SchemaError string string


definition initial_schema_analysis :: "string \<Rightarrow> nat \<Rightarrow> 'r schema_analysis" where
  "initial_schema_analysis schema n =
     \<lparr> sa_schema = schema, total_tables = n, tables_analyzed = 0, tables_with_issues = 0,
       critical_issues = 0, high_issues = 0, medium_issues = 0, low_issues = 0,
       table_results = [] \<rparr>"

text \<open>The \<^verbatim>\<open>if/elif\<close> chain that counts one table under its severity.\<close>

definition count_severity :: "severity \<Rightarrow> 'r schema_analysis \<Rightarrow> 'r schema_analysis" where
  "count_severity s a =
     (if s = Critical then a\<lparr>critical_issues := critical_issues a + 1\<rparr>
      else if s = High then a\<lparr>high_issues := high_issues a + 1\<rparr>
      else if s = Medium then a\<lparr>medium_issues := medium_issues a + 1\<rparr>
      else if s = Low then a\<lparr>low_issues := low_issues a + 1\<rparr>
      else a)"

text \<open>One iteration of the \<^verbatim>\<open>for table in tables\<close> loop of \<^verbatim>\<open>check_schema_missing_values\<close>.\<close>

definition missing_schema_step ::
  "db \<Rightarrow> string \<Rightarrow> missing_result schema_analysis \<Rightarrow> string \<Rightarrow> missing_result schema_analysis" where
  "missing_schema_step d schema a table_name =
     (let table_analysis = check_table_missing_values d table_name schema;
          a1 = a\<lparr>table_results := table_results a @ [table_analysis]\<rparr>;
          a2 = a1\<lparr>tables_analyzed := tables_analyzed a1 + 1\<rparr>
      in case table_analysis of
           MissingError t s e \<Rightarrow> a2
         | MissingAnalysis m \<Rightarrow>
             (if ma_severity m \<noteq> Error
              then count_severity (ma_severity m)
                     (if columns_with_missing m > 0
                      then a2\<lparr>tables_with_issues := tables_with_issues a2 + 1\<rparr> else a2)
              else a2))"

definition check_schema_missing_values :: "db \<Rightarrow> string \<Rightarrow> missing_result schema_result" where
  "check_schema_missing_values d schema =
     (case get_tables_by_schema d schema of
        Inl (Exn msg) \<Rightarrow> SchemaError schema msg
      | Inr tables \<Rightarrow>
          SchemaAnalysis
            (foldl (missing_schema_step d schema)
               (initial_schema_analysis schema (length tables)) tables))"

section \<open>Duplicate checker\<close>























section \<open>Date-gap finder\<close>

text \<open>\<^verbatim>\<open>DateGapFinder._calculate_gap_severity\<close>.\<close>

definition calculate_gap_severity :: "nat \<Rightarrow> real \<Rightarrow> severity" where
  "calculate_gap_severity total_gaps total_gap_days =
     (if total_gaps \<ge> 10 \<or> total_gap_days \<ge> 30 then Critical
      else if total_gaps \<ge> 5 \<or> total_gap_days \<ge> 7 then High
      else if total_gaps \<ge> 2 \<or> total_gap_days \<ge> 3 then Medium
      else Low)"

text \<open>Substring test, Python's \<^verbatim>\<open>needle in haystack\<close> on strings.\<close>

fun is_prefix :: "string \<Rightarrow> string \<Rightarrow> bool" where
  "is_prefix [] ys = True"
| "is_prefix (x # xs) [] = False"
| "is_prefix (x # xs) (y # ys) = (x = y \<and> is_prefix xs ys)"

fun contains :: "string \<Rightarrow> string \<Rightarrow> bool" where
  "contains needle [] = (needle = [])"
| "contains needle (y # ys) = (is_prefix needle (y # ys) \<or> contains needle ys)"

text \<open>\<^verbatim>\<open>str.lower\<close> on the ASCII letters.\<close>

definition lower_char :: "char \<Rightarrow> char" where
  "lower_char c =
     (let n = of_char c :: nat in if 65 \<le> n \<and> n \<le> 90 then char_of (n + 32) else c)"

definition determine_expected_interval :: "string \<Rightarrow> string \<Rightarrow> string" where
  "determine_expected_interval col_name dtype =
     (let column_lower = map lower_char col_name
      in if contains ''hour'' column_lower
            \<or> dtype \<in> set [''timestamp'', ''timestamp without time zone'', ''timestamp with time zone'']
         then ''hourly''
         else if contains ''week'' column_lower then ''weekly''
         else if contains ''month'' column_lower then ''monthly''
         else ''daily'')"

text \<open>The query text that \<^verbatim>\<open>_find_gaps_for_interval\<close> selects for an interval name.\<close>

definition query_for_interval :: "string \<Rightarrow> granularity" where
  "query_for_interval interval =
     (if interval = ''daily'' then Daily
      else if interval = ''hourly'' then Hourly
      else if interval = ''weekly'' then Weekly
      else Monthly)"

record date_gap =
  start_date :: int
  end_date :: int
  gap_days :: pynum
  gap_hours :: "pynum option"

text \<open>Division of a query value by the integer 24, as Python does it for numbers and timedeltas.\<close>

fun div24 :: "pynum \<Rightarrow> pynum" where
  "div24 (PyNumber x) = PyNumber (x / 24)"
| "div24 (PyTimedelta t) = PyTimedelta (t / 24)"

definition make_gap :: "string \<Rightarrow> gap_row \<Rightarrow> date_gap" where
  "make_gap interval r =
     (if interval = ''hourly''
      then \<lparr> start_date = expected_start r, end_date = next_expected r,
             gap_days = div24 (gap_amount r), gap_hours = Some (gap_amount r) \<rparr>
      else \<lparr> start_date = expected_start r, end_date = next_expected r,
             gap_days = gap_amount r, gap_hours = None \<rparr>)"

text \<open>
  \<^verbatim>\<open>_find_gaps_for_interval\<close>: a query that raises is logged and leaves the list empty.
  The arguments \<^verbatim>\<open>min_date\<close> and \<^verbatim>\<open>max_date\<close> are passed in and never read.
\<close>

definition find_gaps_for_interval ::
  "db \<Rightarrow> string \<Rightarrow> string \<Rightarrow> string \<Rightarrow> int \<Rightarrow> int \<Rightarrow> string \<Rightarrow> date_gap list" where
  "find_gaps_for_interval d table_name date_column schema min_date max_date interval =
     (case gap_query d (query_for_interval interval) schema table_name date_column of
        Inl e \<Rightarrow> []
      | Inr gap_results \<Rightarrow> map (make_gap interval) gap_results)"

text \<open>
  Python's \<^verbatim>\<open>sum\<close> over the \<^verbatim>\<open>gap_days\<close> values, starting from the integer 0: adding a
  timedelta to a number raises \<^verbatim>\<open>TypeError\<close>.
\<close>

fun py_sum :: "pynum list \<Rightarrow> real \<Rightarrow> exn + real" where
  "py_sum [] acc = Inr acc"
| "py_sum (PyNumber x # xs) acc = py_sum xs (acc + x)"
| "py_sum (PyTimedelta t # xs) acc = Inl (Exn ''unsupported operand type(s) for +'')"

record gap_analysis =
  ga_table_name :: string
  ga_schema :: string
  ga_date_column :: string
  expected_interval :: string
  ga_min_date :: int
  ga_max_date :: int
  total_days :: int
  total_records :: int
  total_gaps :: nat
  total_gap_days :: real
  gaps :: "date_gap list"
  ga_severity :: severity

text \<open>
  The dictionaries of \<^verbatim>\<open>find_gaps_in_date_column\<close>: the analysis, or a dictionary with the
  keys \<^verbatim>\<open>error\<close> and \<^verbatim>\<open>severity = 'error'\<close> (table, schema, column, message).
\<close>

datatype column_gap_result =
    GapAnalysis gap_analysis
  | GapError string string string string

definition find_gaps_in_date_column ::
  "db \<Rightarrow> string \<Rightarrow> string \<Rightarrow> string \<Rightarrow> string \<Rightarrow> column_gap_result" where
  "find_gaps_in_date_column d table_name date_column schema interval =
     (case date_range_query d schema table_name date_column of
        Inl (Exn msg) \<Rightarrow> GapError table_name schema date_column msg
      | Inr (min_date, max_date, records) \<Rightarrow>
          (case (min_date, max_date) of
             (Some lo, Some hi) \<Rightarrow>
               (let gs = find_gaps_for_interval d table_name date_column schema lo hi interval
                in case py_sum (map gap_days gs) 0 of
                     Inl (Exn msg) \<Rightarrow> GapError table_name schema date_column msg
                   | Inr gap_day_sum \<Rightarrow>
                       GapAnalysis
                         \<lparr> ga_table_name = table_name, ga_schema = schema,
                           ga_date_column = date_column, expected_interval = interval,
                           ga_min_date = lo, ga_max_date = hi,
                           total_days = (hi - lo) div 86400,
                           total_records = records,
                           total_gaps = length gs,
                           total_gap_days = gap_day_sum,
                           gaps = gs,
                           ga_severity = calculate_gap_severity (length gs) gap_day_sum \<rparr>)
           | _ \<Rightarrow> GapError table_name schema date_column ''No valid dates found in column''))"

fun column_get_severity :: "column_gap_result \<Rightarrow> severity" where
  "column_get_severity (GapAnalysis a) = ga_severity a"
| "column_get_severity (GapError t s c e) = Error"

fun column_get_total_gaps :: "column_gap_result \<Rightarrow> nat" where
  "column_get_total_gaps (GapAnalysis a) = total_gaps a"
| "column_get_total_gaps (GapError t s c e) = 0"

record table_gap_analysis =
  tg_table_name :: string
  tg_schema :: string
  date_columns_found :: nat
  column_analyses :: "column_gap_result list"
  tg_total_gaps :: nat
  tg_severity :: severity

text \<open>
  The dictionaries of \<^verbatim>\<open>find_gaps_in_table\<close>: the message dictionary for a table without
  date columns (it has no severity key), the analysis, and the error.
\<close>

datatype table_gap_result =
    NoDateColumns string string
  | TableGaps table_gap_analysis
  | TableGapError string string string

text \<open>The severity that the table keeps from its initial \<open>Low\<close> after the \<^verbatim>\<open>if/elif\<close> chain.\<close>

definition gap_table_severity :: "severity list \<Rightarrow> severity" where
  "gap_table_severity severities =
     (if Critical \<in> set severities then Critical
      else if High \<in> set severities then High
      else if Medium \<in> set severities then Medium
      else Low)"

definition analyse_date_column :: "db \<Rightarrow> string \<Rightarrow> string \<Rightarrow> column \<Rightarrow> column_gap_result" where
  "analyse_date_column d table_name schema c =
     find_gaps_in_date_column d table_name (column_name c) schema
       (determine_expected_interval (column_name c) (data_type c))"

definition find_gaps_in_table :: "db \<Rightarrow> string \<Rightarrow> string \<Rightarrow> table_gap_result" where
  "find_gaps_in_table d table_name schema =
     (case get_date_columns d table_name schema of
        Inl (Exn msg) \<Rightarrow> TableGapError table_name schema msg
      | Inr date_columns \<Rightarrow>
          (if date_columns = [] then NoDateColumns table_name schema
           else (let analyses = map (analyse_date_column d table_name schema) date_columns
                 in TableGaps
                      \<lparr> tg_table_name = table_name, tg_schema = schema,
                        date_columns_found = length date_columns,
                        column_analyses = analyses,
                        tg_total_gaps = sum_list (map column_get_total_gaps analyses),
                        tg_severity = gap_table_severity (map column_get_severity analyses) \<rparr>)))"

text \<open>\<^verbatim>\<open>result.get('severity')\<close> on a table-level dictionary of the gap finder.\<close>

fun table_gap_get_severity :: "table_gap_result \<Rightarrow> severity option" where
  "table_gap_get_severity (NoDateColumns t s) = None"
| "table_gap_get_severity (TableGaps a) = Some (tg_severity a)"
| "table_gap_get_severity (TableGapError t s e) = Some Error"

fun table_gap_get_total_gaps :: "table_gap_result \<Rightarrow> nat" where
  "table_gap_get_total_gaps (TableGaps a) = tg_total_gaps a"
| "table_gap_get_total_gaps _ = 0"

definition gap_schema_step ::
  "db \<Rightarrow> string \<Rightarrow> table_gap_result schema_analysis \<Rightarrow> string
     \<Rightarrow> table_gap_result schema_analysis" where
  "gap_schema_step d schema a table_name =
     (let table_analysis = find_gaps_in_table d table_name schema;
          a1 = a\<lparr>table_results := table_results a @ [table_analysis]\<rparr>;
          a2 = a1\<lparr>tables_analyzed := tables_analyzed a1 + 1\<rparr>
      in if table_gap_get_severity table_analysis \<noteq> Some Error
         then count_severity
                (case table_gap_get_severity table_analysis of None \<Rightarrow> Low | Some s \<Rightarrow> s)
                (if table_gap_get_total_gaps table_analysis > 0
                 then a2\<lparr>tables_with_issues := tables_with_issues a2 + 1\<rparr> else a2)
         else a2)"

definition find_gaps_in_schema :: "db \<Rightarrow> string \<Rightarrow> table_gap_result schema_result" where
  "find_gaps_in_schema d schema =
     (case get_tables_by_schema d schema of
        Inl (Exn msg) \<Rightarrow> SchemaError schema msg
      | Inr tables \<Rightarrow>
          SchemaAnalysis
            (foldl (gap_schema_step d schema)
               (initial_schema_analysis schema (length tables)) tables))"

section \<open>The queries, on tables of rows\<close>

text \<open>
  A table as PostgreSQL holds it for the queries the checkers send: its catalogue entries and
  its rows, each row binding column names to values, \<open>None\<close> being \<^verbatim>\<open>NULL\<close>. Values are
  integers; a date or timestamp is its number of seconds since the epoch.
\<close>

type_synonym sql_row = "(string \<times> int option) list"

record sql_table =
  tbl_schema :: string
  tbl_name :: string
  tbl_columns :: "column list"
  tbl_primary_keys :: "string list"
  tbl_rows :: "sql_row list"

definition cell :: "sql_row \<Rightarrow> string \<Rightarrow> int option" where
  "cell r c = (case map_of r c of None \<Rightarrow> None | Some v \<Rightarrow> v)"

definition find_table :: "sql_table list \<Rightarrow> string \<Rightarrow> string \<Rightarrow> sql_table option" where
  "find_table tables schema table_name =
     find (\<lambda>t. tbl_schema t = schema \<and> tbl_name t = table_name) tables"

definition known_columns :: "sql_table \<Rightarrow> string list \<Rightarrow> bool" where
  "known_columns t cs = list_all (\<lambda>c. c \<in> set (map column_name (tbl_columns t))) cs"

text \<open>\<^verbatim>\<open>SELECT COUNT(*) FROM t WHERE c IS NULL\<close>.\<close>

definition sql_null_count :: "sql_row list \<Rightarrow> string \<Rightarrow> int" where
  "sql_null_count rows c = int (length (filter (\<lambda>r. cell r c = None) rows))"

text \<open>
  \<^verbatim>\<open>SELECT cols, COUNT(*) AS duplicate_count FROM t GROUP BY cols HAVING COUNT(*) > 1\<close>,
  with \<^verbatim>\<open>ORDER BY duplicate_count DESC\<close> when \<open>ordered\<close>. \<^verbatim>\<open>GROUP BY\<close> puts NULLs in one group.
\<close>

definition group_keys :: "sql_row list \<Rightarrow> string list \<Rightarrow> int option list list" where
  "group_keys rows cols = map (\<lambda>r. map (cell r) cols) rows"

definition sql_group_having :: "sql_row list \<Rightarrow> string list \<Rightarrow> bool \<Rightarrow> dup_row list" where
  "sql_group_having rows cols ordered =
     (let keys = group_keys rows cols;
          groups = map (\<lambda>k. \<lparr> group_values = k, dup_count = int (count_list keys k) \<rparr>)
                     (filter (\<lambda>k. count_list keys k > 1) (remdups keys))
      in if ordered then sort_key (\<lambda>g. - dup_count g) groups else groups)"

text \<open>\<^verbatim>\<open>SELECT MIN(c), MAX(c), COUNT(*) FROM t WHERE c IS NOT NULL\<close>.\<close>

definition not_null_values :: "sql_row list \<Rightarrow> string \<Rightarrow> int list" where
  "not_null_values rows c = concat (map (\<lambda>r. case cell r c of None \<Rightarrow> [] | Some v \<Rightarrow> [v]) rows)"

definition sql_date_range :: "sql_row list \<Rightarrow> string \<Rightarrow> int option \<times> int option \<times> int" where
  "sql_date_range rows c =
     (let vs = not_null_values rows c
      in if vs = [] then (None, None, 0)
         else (Some (Min (set vs)), Some (Max (set vs)), int (length vs)))"

text \<open>
  The calendar of the gap queries. \<open>date_trunc\<close> is \<^verbatim>\<open>DATE\<close> and \<^verbatim>\<open>DATE_TRUNC\<close> (weeks start
  on Monday, the epoch is a Thursday); \<open>add_interval\<close> adds one unit to a truncated value.
\<close>

definition day_in_month :: "int \<Rightarrow> int" where
  "day_in_month z =
     (let doe = (z + 719468) mod 146097;
          yoe = (doe - doe div 1460 + doe div 36524 - doe div 146096) div 365;
          doy = doe - (365 * yoe + yoe div 4 - yoe div 100);
          mp = (5 * doy + 2) div 153
      in doy - (153 * mp + 2) div 5)"

fun date_trunc :: "granularity \<Rightarrow> int \<Rightarrow> int" where
  "date_trunc Daily x = (x div 86400) * 86400"
| "date_trunc Hourly x = (x div 3600) * 3600"
| "date_trunc Weekly x = (let n = x div 86400 in (n - (n + 3) mod 7) * 86400)"
| "date_trunc Monthly x = (let n = x div 86400 in (n - day_in_month n) * 86400)"

fun add_interval :: "granularity \<Rightarrow> int \<Rightarrow> int" where
  "add_interval Daily x = x + 86400"
| "add_interval Hourly x = x + 3600"
| "add_interval Weekly x = x + 604800"
| "add_interval Monthly x = date_trunc Monthly (x + 31 * 86400)"

text \<open>
  \<^verbatim>\<open>generate_series(start, stop, step)\<close> for a step that moves forward, as every interval of
  the queries does.
\<close>

function generate_series :: "(int \<Rightarrow> int) \<Rightarrow> int \<Rightarrow> int \<Rightarrow> int list" where
  "generate_series add start stop =
     (if start \<le> stop \<and> start < add start
      then start # generate_series add (add start) stop else [])"
  by pat_completeness auto
termination
  by (relation "measure (\<lambda>(add, start, stop). nat (stop - start + 1))") auto

declare generate_series.simps [simp del]

text \<open>The value of the query's last column: an interval for days, a number otherwise.\<close>

fun gap_length :: "granularity \<Rightarrow> int \<Rightarrow> pynum" where
  "gap_length Daily e = PyTimedelta (of_int (add_interval Daily e - e) / 86400)"
| "gap_length Hourly e = PyNumber (of_int (add_interval Hourly e - e) / 3600)"
| "gap_length Weekly e = PyNumber (of_int (add_interval Weekly e - e) / 86400)"
| "gap_length Monthly e = PyNumber (of_int (add_interval Monthly e - e) / 86400)"

text \<open>
  The gap query of \<^verbatim>\<open>_find_gaps_for_interval\<close>. The series is built per group of
  \<^verbatim>\<open>GROUP BY trunc(c)\<close>, as \<^verbatim>\<open>generate_series(trunc(c), trunc(c), step)\<close>; it is left-joined
  with the distinct truncated values, and the rows without a partner are kept, in order.
\<close>

definition sql_gap_query :: "granularity \<Rightarrow> sql_row list \<Rightarrow> string \<Rightarrow> gap_row list" where
  "sql_gap_query g rows c =
     (let buckets = map (date_trunc g) (not_null_values rows c);
          series = concat (map (\<lambda>b. generate_series (add_interval g) b b) (remdups buckets));
          actual = remdups buckets;
          missing = filter (\<lambda>e. e \<notin> set actual) series
      in map (\<lambda>e. \<lparr> expected_start = e, next_expected = add_interval g e,
                     gap_amount = gap_length g e \<rparr>) (sort missing))"

text \<open>
  The collaborators over a list of tables. The schema reader answers from the catalogue
  entries, as its docstrings describe; a query on a table or column that does not exist, or
  with an empty column list, raises.
\<close>

definition on_table ::
  "sql_table list \<Rightarrow> string \<Rightarrow> string \<Rightarrow> string list \<Rightarrow> (sql_table \<Rightarrow> 'a) \<Rightarrow> exn + 'a" where
  "on_table tables schema table_name cs f =
     (case find_table tables schema table_name of
        None \<Rightarrow> Inl (Exn (''relation '' @ schema @ ''.'' @ table_name @ '' does not exist''))
      | Some t \<Rightarrow>
          if cs = [] then Inl (Exn ''syntax error'')
          else if known_columns t cs then Inr (f t)
          else Inl (Exn ''column does not exist''))"

definition date_types :: "string list" where
  "date_types = [''date'', ''timestamp'', ''timestamp without time zone'', ''timestamp with time zone'']"

definition sql_db :: "sql_table list \<Rightarrow> db" where
  "sql_db tables =
     \<lparr> get_table_structure = (\<lambda>table_name schema.
         case find_table tables schema table_name of
           None \<Rightarrow> Inl (Exn (''Table '' @ schema @ ''.'' @ table_name @ '' not found''))
         | Some t \<Rightarrow> Inr \<lparr> row_count = int (length (tbl_rows t)), columns = tbl_columns t,
                            primary_keys = tbl_primary_keys t \<rparr>),
       get_tables_by_schema = (\<lambda>schema.
         Inr (map tbl_name (filter (\<lambda>t. tbl_schema t = schema) tables))),
       get_date_columns = (\<lambda>table_name schema.
         case find_table tables schema table_name of
           None \<Rightarrow> Inr []
         | Some t \<Rightarrow> Inr (filter (\<lambda>c. data_type c \<in> set date_types) (tbl_columns t))),
       get_table_row_count = (\<lambda>table_name schema.
         case find_table tables schema table_name of
           None \<Rightarrow> Inl (Exn (''relation '' @ schema @ ''.'' @ table_name @ '' does not exist''))
         | Some t \<Rightarrow> Inr (int (length (tbl_rows t)))),
       null_count_query = (\<lambda>schema table_name c.
         on_table tables schema table_name [c] (\<lambda>t. sql_null_count (tbl_rows t) c)),
       group_having_query = (\<lambda>schema table_name cs ordered.
         on_table tables schema table_name cs (\<lambda>t. sql_group_having (tbl_rows t) cs ordered)),
       date_range_query = (\<lambda>schema table_name c.
         on_table tables schema table_name [c] (\<lambda>t. sql_date_range (tbl_rows t) c)),
       gap_query = (\<lambda>g schema table_name c.
         on_table tables schema table_name [c] (\<lambda>t. sql_gap_query g (tbl_rows t) c)) \<rparr>"

section \<open>Example databases\<close>

definition customer_table :: sql_table where
  "customer_table =
     \<lparr> tbl_schema = ''public'', tbl_name = ''customer'',
       tbl_columns =
         [\<lparr> column_name = ''customer_id'', data_type = ''integer'', is_nullable = ''NO'' \<rparr>,
          \<lparr> column_name = ''email'', data_type = ''integer'', is_nullable = ''NO'' \<rparr>,
          \<lparr> column_name = ''phone'', data_type = ''integer'', is_nullable = ''YES'' \<rparr>],
       tbl_primary_keys = [''customer_id''],
       tbl_rows =
         [[(''customer_id'', Some 1), (''email'', None), (''phone'', None)],
          [(''customer_id'', Some 2), (''email'', Some 7), (''phone'', Some 1)]] \<rparr>"

definition film_table :: sql_table where
  "film_table =
     \<lparr> tbl_schema = ''public'', tbl_name = ''film'',
       tbl_columns = [\<lparr> column_name = ''title'', data_type = ''integer'', is_nullable = ''NO'' \<rparr>],
       tbl_primary_keys = [],
       tbl_rows =
         [[(''title'', None)], [(''title'', Some 1)], [(''title'', Some 2)],
          [(''title'', Some 3)], [(''title'', Some 4)], [(''title'', Some 5)]] \<rparr>"

definition store_table :: sql_table where
  "store_table =
     \<lparr> tbl_schema = ''public'', tbl_name = ''store'',
       tbl_columns = [\<lparr> column_name = ''store_id'', data_type = ''integer'', is_nullable = ''NO'' \<rparr>],
       tbl_primary_keys = [''store_id''],
       tbl_rows = [[(''store_id'', Some 1)]] \<rparr>"

text \<open>A date column with rows on the days 1, 2, 3, 5 and 6 after the epoch.\<close>

definition days_table :: sql_table where
  "days_table =
     \<lparr> tbl_schema = ''public'', tbl_name = ''rental'',
       tbl_columns = [\<lparr> column_name = ''rental_date'', data_type = ''date'', is_nullable = ''NO'' \<rparr>],
       tbl_primary_keys = [],
       tbl_rows =
         [[(''rental_date'', Some 86400)], [(''rental_date'', Some 172800)],
          [(''rental_date'', Some 259200)], [(''rental_date'', Some 432000)],
          [(''rental_date'', Some 518400)]] \<rparr>"

text \<open>A table without rows.\<close>

definition audit_table :: sql_table where
  "audit_table =
     \<lparr> tbl_schema = ''public'', tbl_name = ''audit'',
       tbl_columns =
         [\<lparr> column_name = ''audit_id'', data_type = ''integer'', is_nullable = ''NO'' \<rparr>,
          \<lparr> column_name = ''created'', data_type = ''date'', is_nullable = ''YES'' \<rparr>],
       tbl_primary_keys = [],
       tbl_rows = [] \<rparr>"

text \<open>A table without rows and without date columns.\<close>

definition archive_table :: sql_table where
  "archive_table =
     \<lparr> tbl_schema = ''public'', tbl_name = ''archive'',
       tbl_columns = [\<lparr> column_name = ''archive_id'', data_type = ''integer'', is_nullable = ''NO'' \<rparr>],
       tbl_primary_keys = [],
       tbl_rows = [] \<rparr>"

text \<open>Two rows share the primary key 5; no two rows agree on all columns.\<close>

definition orders_table :: sql_table where
  "orders_table =
     \<lparr> tbl_schema = ''public'', tbl_name = ''orders'',
       tbl_columns =
         [\<lparr> column_name = ''id'', data_type = ''integer'', is_nullable = ''NO'' \<rparr>,
          \<lparr> column_name = ''amount'', data_type = ''integer'', is_nullable = ''NO'' \<rparr>],
       tbl_primary_keys = [''id''],
       tbl_rows =
         [[(''id'', Some 5), (''amount'', Some 10)],
          [(''id'', Some 5), (''amount'', Some 20)],
          [(''id'', Some 6), (''amount'', Some 10)]] \<rparr>"

text \<open>Two of three rows agree on all columns.\<close>

definition pairs_table :: sql_table where
  "pairs_table =
     \<lparr> tbl_schema = ''public'', tbl_name = ''pairs'',
       tbl_columns =
         [\<lparr> column_name = ''a'', data_type = ''integer'', is_nullable = ''NO'' \<rparr>,
          \<lparr> column_name = ''b'', data_type = ''integer'', is_nullable = ''NO'' \<rparr>],
       tbl_primary_keys = [],
       tbl_rows =
         [[(''a'', Some 1), (''b'', Some 2)],
          [(''a'', Some 1), (''b'', Some 2)],
          [(''a'', Some 3), (''b'', Some 4)]] \<rparr>"

text \<open>A catalogue listing that still names a table that is gone.\<close>

definition stale_db :: db where
  "stale_db = (sql_db [customer_table])
     \<lparr> get_tables_by_schema := (\<lambda>schema. Inr [''dropped'', ''customer'']) \<rparr>"

text \<open>What the schema loop counts, read off the list of table results.\<close>

definition counted_at :: "severity \<Rightarrow> missing_result \<Rightarrow> bool" where
  "counted_at s r =
     (case r of MissingAnalysis m \<Rightarrow> ma_severity m = s | MissingError t sc e \<Rightarrow> False)"

definition has_missing :: "missing_result \<Rightarrow> bool" where
  "has_missing r =
     (case r of MissingAnalysis m \<Rightarrow> columns_with_missing m > 0 | MissingError t sc e \<Rightarrow> False)"


text \<open>
  The message of the exception that the body of \<^verbatim>\<open>check_table_missing_values\<close> raises, if it
  raises: from the schema reader or from a null-count query.
\<close>

definition raised_message :: "db \<Rightarrow> string \<Rightarrow> string \<Rightarrow> string option" where
  "raised_message d table_name schema =
     (case get_table_structure d table_name schema of
        Inl (Exn msg) \<Rightarrow> Some msg
      | Inr ts \<Rightarrow>
          (case missing_loop d table_name schema (row_count ts) (columns ts) (0, []) of
             Inl (Exn msg) \<Rightarrow> Some msg
           | Inr acc \<Rightarrow> None))"



section \<open>Properties of the missing-value checker\<close>

lemmas sql_eval =
  sql_db_def on_table_def find_table_def known_columns_def cell_def sql_null_count_def
  sql_group_having_def group_keys_def sql_date_range_def not_null_values_def sql_gap_query_def
  date_types_def

lemmas example_tables =
  customer_table_def film_table_def store_table_def days_table_def audit_table_def
  archive_table_def orders_table_def pairs_table_def

lemma max_severity_cases: "max_severity ss \<in> {Critical, High, Medium, Low}"
  by (simp add: max_severity_def)

lemma missing_analysis_on_scale:
  "check_table_missing_values d t s = MissingAnalysis m \<Longrightarrow> ma_severity m \<noteq> Error \<and> ma_severity m \<noteq> Info"
  using max_severity_cases
  by (auto simp: check_table_missing_values_def max_severity_def split: sum.splits exn.splits prod.splits if_splits)

lemma missing_schema_step_fields:
  "table_results (missing_schema_step d schema a t) = table_results a @ [check_table_missing_values d t schema]"
  "tables_analyzed (missing_schema_step d schema a t) = tables_analyzed a + 1"
  "total_tables (missing_schema_step d schema a t) = total_tables a"
  "sa_schema (missing_schema_step d schema a t) = sa_schema a"
  "tables_with_issues (missing_schema_step d schema a t) =
     tables_with_issues a + (if has_missing (check_table_missing_values d t schema) then 1 else 0)"
  "critical_issues (missing_schema_step d schema a t) =
     critical_issues a + (if counted_at Critical (check_table_missing_values d t schema) then 1 else 0)"
  "high_issues (missing_schema_step d schema a t) =
     high_issues a + (if counted_at High (check_table_missing_values d t schema) then 1 else 0)"
  "medium_issues (missing_schema_step d schema a t) =
     medium_issues a + (if counted_at Medium (check_table_missing_values d t schema) then 1 else 0)"
  "low_issues (missing_schema_step d schema a t) =
     low_issues a + (if counted_at Low (check_table_missing_values d t schema) then 1 else 0)"
  using missing_analysis_on_scale [of d t schema]
  by (auto simp: missing_schema_step_def Let_def count_severity_def counted_at_def has_missing_def
           split: missing_result.splits)

lemma missing_fold:
  "table_results (foldl (missing_schema_step d schema) a ts) =
     table_results a @ map (\<lambda>t. check_table_missing_values d t schema) ts"
  "tables_analyzed (foldl (missing_schema_step d schema) a ts) = tables_analyzed a + length ts"
  "tables_with_issues (foldl (missing_schema_step d schema) a ts) =
     tables_with_issues a + length (filter has_missing (map (\<lambda>t. check_table_missing_values d t schema) ts))"
  "critical_issues (foldl (missing_schema_step d schema) a ts) =
     critical_issues a + length (filter (counted_at Critical) (map (\<lambda>t. check_table_missing_values d t schema) ts))"
  "high_issues (foldl (missing_schema_step d schema) a ts) =
     high_issues a + length (filter (counted_at High) (map (\<lambda>t. check_table_missing_values d t schema) ts))"
  "medium_issues (foldl (missing_schema_step d schema) a ts) =
     medium_issues a + length (filter (counted_at Medium) (map (\<lambda>t. check_table_missing_values d t schema) ts))"
  "low_issues (foldl (missing_schema_step d schema) a ts) =
     low_issues a + length (filter (counted_at Low) (map (\<lambda>t. check_table_missing_values d t schema) ts))"
  by (induction ts arbitrary: a; simp add: missing_schema_step_fields)+

lemma schema_scan_tallies:
  assumes "get_tables_by_schema d schema = Inr tables"
  shows "\<exists>a. check_schema_missing_values d schema = SchemaAnalysis a
       \<and> table_results a = map (\<lambda>t. check_table_missing_values d t schema) tables
       \<and> tables_analyzed a = length tables
       \<and> tables_with_issues a = length (filter has_missing (table_results a))
       \<and> critical_issues a = length (filter (counted_at Critical) (table_results a))
       \<and> high_issues a = length (filter (counted_at High) (table_results a))
       \<and> medium_issues a = length (filter (counted_at Medium) (table_results a))
       \<and> low_issues a = length (filter (counted_at Low) (table_results a))"
  using assms
  by (simp add: check_schema_missing_values_def missing_fold initial_schema_analysis_def)

lemma raised_gives_error:
  "raised_message d t schema = Some msg \<Longrightarrow> check_table_missing_values d t schema = MissingError t schema msg"
  by (auto simp: raised_message_def check_table_missing_values_def split: sum.splits exn.splits)

text \<open>
  Claim C7. In a schema scan of the missing-value checker every listed table is analysed, in
  order, and counted in \<open>tables_analyzed\<close>. A table whose check raised is recorded as an
  entry of severity \<open>Error\<close> with the message; it is counted neither among the tables with
  missing values nor in any of the four severity tallies.
\<close>

theorem schema_scan_isolates_failures:
  assumes "get_tables_by_schema d schema = Inr tables"
  shows "\<exists>a. check_schema_missing_values d schema = SchemaAnalysis a
       \<and> table_results a = map (\<lambda>t. check_table_missing_values d t schema) tables
       \<and> tables_analyzed a = length tables
       \<and> tables_with_issues a = length (filter has_missing (table_results a))
       \<and> critical_issues a = length (filter (counted_at Critical) (table_results a))
       \<and> high_issues a = length (filter (counted_at High) (table_results a))
       \<and> medium_issues a = length (filter (counted_at Medium) (table_results a))
       \<and> low_issues a = length (filter (counted_at Low) (table_results a))
       \<and> (\<forall>t msg. t \<in> set tables \<and> raised_message d t schema = Some msg \<longrightarrow>
             MissingError t schema msg \<in> set (table_results a)
             \<and> missing_get_severity (MissingError t schema msg) = Error
             \<and> \<not> has_missing (MissingError t schema msg)
             \<and> (\<forall>sv. \<not> counted_at sv (MissingError t schema msg)))"
proof -
  from schema_scan_tallies [OF assms] obtain a where
    a: "check_schema_missing_values d schema = SchemaAnalysis a"
       "table_results a = map (\<lambda>t. check_table_missing_values d t schema) tables"
       "tables_analyzed a = length tables"
       "tables_with_issues a = length (filter has_missing (table_results a))"
       "critical_issues a = length (filter (counted_at Critical) (table_results a))"
       "high_issues a = length (filter (counted_at High) (table_results a))"
       "medium_issues a = length (filter (counted_at Medium) (table_results a))"
       "low_issues a = length (filter (counted_at Low) (table_results a))"
    by blast
  have "MissingError t schema msg \<in> set (table_results a)"
    if "t \<in> set tables" "raised_message d t schema = Some msg" for t msg
    using that raised_gives_error [OF that(2)] a(2) by force
  then show ?thesis
    using a by (auto simp: has_missing_def counted_at_def)
qed

theorem schema_scan_isolates_failures_witness:
  "get_tables_by_schema stale_db ''public'' = Inr [''dropped'', ''customer'']
   \<and> ''dropped'' \<in> set [''dropped'', ''customer'']
   \<and> raised_message stale_db ''dropped'' ''public'' = Some ''Table public.dropped not found''
   \<and> (\<exists>a. check_schema_missing_values stale_db ''public'' = SchemaAnalysis a
        \<and> MissingError ''dropped'' ''public'' ''Table public.dropped not found'' \<in> set (table_results a)
        \<and> tables_analyzed a = 2 \<and> tables_with_issues a = 1 \<and> critical_issues a = 1
        \<and> high_issues a = 0 \<and> medium_issues a = 0 \<and> low_issues a = 0)"
proof -
  have h: "get_tables_by_schema stale_db ''public'' = Inr [''dropped'', ''customer'']"
    by (simp add: stale_db_def)
  have r: "raised_message stale_db ''dropped'' ''public'' = Some ''Table public.dropped not found''"
    by (simp add: raised_message_def stale_db_def sql_eval example_tables)
  have c: "\<exists>m. check_table_missing_values stale_db ''customer'' ''public'' = MissingAnalysis m
             \<and> columns_with_missing m = 1 \<and> ma_severity m = Critical"
    by (simp add: check_table_missing_values_def stale_db_def sql_eval example_tables
          make_column_detail_def missing_percentage_def missing_calculate_severity_def max_severity_def)
  from schema_scan_isolates_failures [OF h] obtain a where
    a: "check_schema_missing_values stale_db ''public'' = SchemaAnalysis a"
       "table_results a = map (\<lambda>t. check_table_missing_values stale_db t ''public'') [''dropped'', ''customer'']"
       "tables_analyzed a = length [''dropped'', ''customer'']"
       "tables_with_issues a = length (filter has_missing (table_results a))"
       "critical_issues a = length (filter (counted_at Critical) (table_results a))"
       "high_issues a = length (filter (counted_at High) (table_results a))"
       "medium_issues a = length (filter (counted_at Medium) (table_results a))"
       "low_issues a = length (filter (counted_at Low) (table_results a))"
    by blast
  from c obtain m where m: "check_table_missing_values stale_db ''customer'' ''public'' = MissingAnalysis m"
       "columns_with_missing m = 1" "ma_severity m = Critical" by blast
  have e: "check_table_missing_values stale_db ''dropped'' ''public'' =
             MissingError ''dropped'' ''public'' ''Table public.dropped not found''"
    using raised_gives_error [OF r] .
  show ?thesis
    using h r a m e by (simp add: has_missing_def counted_at_def)
qed













section \<open>Properties of the date-gap finder\<close>

lemma generate_series_single: "set (generate_series add b b) \<subseteq> {b}"
proof (cases "b < add b")
  case True
  then have "generate_series add (add b) b = []"
    by (subst generate_series.simps) simp
  with True show ?thesis
    by (subst generate_series.simps) simp
next
  case False
  then show ?thesis
    by (subst generate_series.simps) simp
qed

lemma sql_gap_query_empty: "sql_gap_query g rows c = []"
proof -
  let ?buckets = "map (date_trunc g) (not_null_values rows c)"
  have "set (concat (map (\<lambda>b. generate_series (add_interval g) b b) (remdups ?buckets)))
          \<subseteq> set (remdups ?buckets)"
    using generate_series_single by fastforce
  then have "filter (\<lambda>e. e \<notin> set (remdups ?buckets))
               (concat (map (\<lambda>b. generate_series (add_interval g) b b) (remdups ?buckets))) = []"
    by (auto simp: filter_empty_conv)
  then show ?thesis
    by (simp add: sql_gap_query_def Let_def)
qed

text \<open>
  Claim C1, evaluated. For a date column with rows on the days 1, 2, 3, 5 and 6 the finder,
  at daily granularity, reads the range from day 1 to day 6 and reports no gap: the list of
  gaps is empty, where the claim expects the one gap of day 4. By \<open>sql_gap_query_empty\<close>
  the gap query returns no row for any column and any granularity, since its series is built
  from each observed bucket to itself.
\<close>

theorem daily_gap_not_reported:
  "\<exists>a. find_gaps_in_date_column (sql_db [days_table]) ''rental'' ''rental_date'' ''public'' ''daily''
          = GapAnalysis a
     \<and> ga_min_date a = 1 * 86400 \<and> ga_max_date a = 6 * 86400 \<and> total_records a = 5
     \<and> total_gaps a = 0 \<and> gaps a = []"
  by (simp add: find_gaps_in_date_column_def find_gaps_for_interval_def query_for_interval_def
        sql_gap_query_empty sql_db_def on_table_def find_table_def known_columns_def
        sql_date_range_def not_null_values_def cell_def days_table_def)


lemma no_valid_dates:
  assumes "find_table tables schema table_name = Some t"
    and "c \<in> set (map column_name (tbl_columns t))"
    and "not_null_values (tbl_rows t) c = []"
  shows "find_gaps_in_date_column (sql_db tables) table_name c schema interval =
           GapError table_name schema c ''No valid dates found in column''"
  using assms
  by (simp add: find_gaps_in_date_column_def sql_db_def on_table_def known_columns_def sql_date_range_def)

text \<open>
  Claim C10. The severity of a table in a date-gap scan is \<open>Critical\<close>, \<open>High\<close> or \<open>Medium\<close>
  exactly when that is the greatest of these three among the severities of its column
  results, and \<open>Low\<close> otherwise; it is never \<open>Error\<close>. A table whose column results all have
  severity \<open>Error\<close> has severity \<open>Low\<close>.
\<close>

theorem gap_table_severity_ignores_errors:
  assumes "find_gaps_in_table d table_name schema = TableGaps a"
  shows "(tg_severity a = Critical \<longleftrightarrow> Critical \<in> column_get_severity ` set (column_analyses a))
       \<and> (tg_severity a = High \<longleftrightarrow>
            High \<in> column_get_severity ` set (column_analyses a)
            \<and> Critical \<notin> column_get_severity ` set (column_analyses a))
       \<and> (tg_severity a = Medium \<longleftrightarrow>
            Medium \<in> column_get_severity ` set (column_analyses a)
            \<and> High \<notin> column_get_severity ` set (column_analyses a)
            \<and> Critical \<notin> column_get_severity ` set (column_analyses a))
       \<and> (tg_severity a = Low \<longleftrightarrow>
            Medium \<notin> column_get_severity ` set (column_analyses a)
            \<and> High \<notin> column_get_severity ` set (column_analyses a)
            \<and> Critical \<notin> column_get_severity ` set (column_analyses a))
       \<and> tg_severity a \<noteq> Error
       \<and> (column_get_severity ` set (column_analyses a) \<subseteq> {Error} \<longrightarrow> tg_severity a = Low)"
proof -
  from assms have "tg_severity a = gap_table_severity (map column_get_severity (column_analyses a))"
    by (auto simp: find_gaps_in_table_def Let_def split: sum.splits exn.splits if_splits)
  then show ?thesis
    by (auto simp: gap_table_severity_def)
qed

lemma audit_date_columns:
  "get_date_columns (sql_db [audit_table]) ''audit'' ''public'' =
     Inr [\<lparr> column_name = ''created'', data_type = ''date'', is_nullable = ''YES'' \<rparr>]"
  by (simp add: sql_db_def find_table_def audit_table_def date_types_def)

lemma audit_created_error:
  "find_gaps_in_date_column (sql_db [audit_table]) ''audit'' ''created'' ''public'' interval =
     GapError ''audit'' ''public'' ''created'' ''No valid dates found in column''"
proof -
  have 1: "find_table [audit_table] ''public'' ''audit'' = Some audit_table"
    by (simp add: find_table_def audit_table_def)
  have 2: "''created'' \<in> set (map column_name (tbl_columns audit_table))"
    by (simp add: audit_table_def)
  have 3: "not_null_values (tbl_rows audit_table) ''created'' = []"
    by (simp add: audit_table_def not_null_values_def)
  from no_valid_dates [OF 1 2 3] show ?thesis .
qed

theorem gap_table_severity_ignores_errors_witness:
  "\<exists>a. find_gaps_in_table (sql_db [audit_table]) ''audit'' ''public'' = TableGaps a
     \<and> map column_get_severity (column_analyses a) = [Error]
     \<and> column_get_severity ` set (column_analyses a) \<subseteq> {Error}
     \<and> tg_severity a = Low"
proof -
  have "\<exists>a. find_gaps_in_table (sql_db [audit_table]) ''audit'' ''public'' = TableGaps a
     \<and> map column_get_severity (column_analyses a) = [Error]"
    by (simp add: find_gaps_in_table_def analyse_date_column_def audit_date_columns
          audit_created_error)
  then obtain a where a1: "find_gaps_in_table (sql_db [audit_table]) ''audit'' ''public'' = TableGaps a"
    and a2: "map column_get_severity (column_analyses a) = [Error]"
    by (elim exE conjE)
  have "set (map column_get_severity (column_analyses a)) = {Error}"
    by (simp only: a2) simp
  then have s: "column_get_severity ` set (column_analyses a) \<subseteq> {Error}"
    by simp
  from gap_table_severity_ignores_errors [OF a1]
  have "column_get_severity ` set (column_analyses a) \<subseteq> {Error} \<longrightarrow> tg_severity a = Low"
    by (elim conjE)
  with s have l: "tg_severity a = Low" by (rule mp [rotated])
  from a1 a2 s l show ?thesis by (intro exI conjI)
qed


section \<open>Tables and columns without data\<close>









section \<open>Properties of the duplicate checker\<close>




























section \<open>Roll-up of severities\<close>







end
